theory Spec2Isabelle
  imports Main "HOL-Library.Word"
begin

section \<open>JavaScript strings\<close>

text \<open>
  A JavaScript string is a sequence of UTF-16 code units; \<open>length\<close>, \<open>includes\<close>,
  \<open>trim\<close>, \<open>!==\<close> and a regular expression without the \<open>u\<close> flag all work on
  code units. The empty string is the only falsy string, so \<open>!s\<close> is \<open>s = []\<close>.
\<close>

type_synonym cu = "16 word"
type_synonym jsstring = "cu list"

text \<open>A string literal of the source (ASCII) as code units.\<close>

definition js :: "string \<Rightarrow> jsstring" where
  "js lit = map of_char lit"

text \<open>
  The code units that \<open>String.prototype.trim\<close> strips and that \<open>\s\<close> matches:
  ECMAScript's WhiteSpace (TAB, VT, FF, SP, NBSP, ZWNBSP and the category Zs) and
  LineTerminator (LF, CR, LS, PS).
\<close>

definition isWhiteSpace :: "cu \<Rightarrow> bool" where
  "isWhiteSpace c \<longleftrightarrow>
     c = 0x9 \<or> c = 0xA \<or> c = 0xB \<or> c = 0xC \<or> c = 0xD \<or> c = 0x20 \<or> c = 0xA0 \<or>
     c = 0x1680 \<or> (0x2000 \<le> c \<and> c \<le> 0x200A) \<or> c = 0x2028 \<or> c = 0x2029 \<or>
     c = 0x202F \<or> c = 0x205F \<or> c = 0x3000 \<or> c = 0xFEFF"

text \<open>\<open>\d\<close>: the ASCII digits 0 to 9.\<close>

definition isDigit :: "cu \<Rightarrow> bool" where
  "isDigit c \<longleftrightarrow> 0x30 \<le> c \<and> c \<le> 0x39"

definition trimStart :: "jsstring \<Rightarrow> jsstring" where
  "trimStart s = dropWhile isWhiteSpace s"

definition trimEnd :: "jsstring \<Rightarrow> jsstring" where
  "trimEnd s = rev (dropWhile isWhiteSpace (rev s))"

definition trim :: "jsstring \<Rightarrow> jsstring" where
  "trim s = trimEnd (trimStart s)"

text \<open>\<open>s.includes(c)\<close> for a one-character search string.\<close>

definition includes_js :: "jsstring \<Rightarrow> cu \<Rightarrow> bool" where
  "includes_js s c \<longleftrightarrow> c \<in> set s"

section \<open>Regular expressions\<close>

text \<open>
  The two patterns of the source, \<open>/^[^\s@]+@[^\s@]+\.[^\s@]+$/\<close> and \<open>/^\d+$/\<close>,
  are sequences of the assertions \<open>^\<close> and \<open>$\<close>, single characters or character
  classes, and character classes under the greedy quantifier \<open>+\<close>. Neither has
  the flags \<open>g\<close>, \<open>y\<close> or \<open>m\<close>: \<open>test\<close> starts at index 0 every time, tries each
  start index in turn, \<open>^\<close> holds only at index 0 and \<open>$\<close> only at the end of the
  input.
\<close>

datatype atom =
    Bol
  | Eol
  | Ch "cu \<Rightarrow> bool"
  | ChPlus "cu \<Rightarrow> bool"

text \<open>
  \<open>matchHere r b s\<close>: the pattern \<open>r\<close> matches a prefix of the rest \<open>s\<close> of the
  input, where \<open>b\<close> says that the rest is the whole input (index 0). A quantified
  class takes one character and then first tries to take more (greedy), then to go on.
\<close>

fun matchHere :: "atom list \<Rightarrow> bool \<Rightarrow> jsstring \<Rightarrow> bool" where
  "matchHere [] b s = True"
| "matchHere (Bol # r) b s = (b \<and> matchHere r b s)"
| "matchHere (Eol # r) b s = (s = [] \<and> matchHere r b s)"
| "matchHere (Ch p # r) b [] = False"
| "matchHere (Ch p # r) b (c # cs) = (p c \<and> matchHere r False cs)"
| "matchHere (ChPlus p # r) b [] = False"
| "matchHere (ChPlus p # r) b (c # cs) =
     (p c \<and> (matchHere (ChPlus p # r) False cs \<or> matchHere r False cs))"

fun searchFrom :: "atom list \<Rightarrow> bool \<Rightarrow> jsstring \<Rightarrow> bool" where
  "searchFrom r b [] = matchHere r b []"
| "searchFrom r b (c # cs) = (matchHere r b (c # cs) \<or> searchFrom r False cs)"

text \<open>\<open>regex.test(s)\<close>\<close>

definition test :: "atom list \<Rightarrow> jsstring \<Rightarrow> bool" where
  "test r s = searchFrom r True s"

text \<open>\<open>[^\s@]\<close>\<close>

definition notSpaceAt :: "cu \<Rightarrow> bool" where
  "notSpaceAt c \<longleftrightarrow> \<not> isWhiteSpace c \<and> c \<noteq> 0x40"

definition emailRegex :: "atom list" where
  "emailRegex =
     [Bol, ChPlus notSpaceAt, Ch (\<lambda>c. c = 0x40), ChPlus notSpaceAt,
      Ch (\<lambda>c. c = 0x2E), ChPlus notSpaceAt, Eol]"

definition phoneRegex :: "atom list" where
  "phoneRegex = [Bol, ChPlus isDigit, Eol]"

section \<open>The document\<close>

text \<open>
  The elements the script binds at load: five inputs, one error slot for each, the
  success banner and the form. A field names its input and its error slot.
\<close>

datatype field = FullName | Email | Password | ConfirmPassword | Phone

text \<open>
  The state of the document that the script reads and writes. \<open>classList\<close> is a set
  of tokens. \<open>parentElement\<close> is the element an input sits in; the script never
  changes it. Container elements are numbered; \<open>groupClass\<close> is the \<open>classList\<close> of
  a container. Two inputs with the same parent share its \<open>classList\<close>.
\<close>

record dom =
  inputValue :: "field \<Rightarrow> jsstring"
  inputClass :: "field \<Rightarrow> string set"
  parentElement :: "field \<Rightarrow> nat"
  groupClass :: "nat \<Rightarrow> string set"
  errorText :: "field \<Rightarrow> jsstring"
  errorClass :: "field \<Rightarrow> string set"
  successClass :: "string set"

text \<open>\<open>classList.add\<close> and \<open>classList.remove\<close>\<close>

definition classAdd :: "string \<Rightarrow> string set \<Rightarrow> string set" where
  "classAdd c cl = insert c cl"

definition classRemove :: "string \<Rightarrow> string set \<Rightarrow> string set" where
  "classRemove c cl = cl - {c}"

text \<open>\<open>group.classList.add('error')\<close>, \<open>group.classList.remove('error')\<close> on a container.\<close>

definition groupAdd :: "nat \<Rightarrow> string \<Rightarrow> dom \<Rightarrow> dom" where
  "groupAdd g c d = d\<lparr>groupClass := (groupClass d)(g := classAdd c (groupClass d g))\<rparr>"

definition groupRemove :: "nat \<Rightarrow> string \<Rightarrow> dom \<Rightarrow> dom" where
  "groupRemove g c d = d\<lparr>groupClass := (groupClass d)(g := classRemove c (groupClass d g))\<rparr>"

section \<open>Error display\<close>

text \<open>
  \<open>showError(input, errorElement, message)\<close> and \<open>clearError(input, errorElement)\<close>:
  the first argument is the field whose input is styled, the second the field whose
  error slot is written.
\<close>

definition showError :: "field \<Rightarrow> field \<Rightarrow> jsstring \<Rightarrow> dom \<Rightarrow> dom" where
  "showError input errorElement message d =
     d\<lparr>inputClass := (inputClass d)
          (input := classRemove ''success-input'' (classAdd ''error-input'' (inputClass d input))),
       errorText := (errorText d)(errorElement := message),
       errorClass := (errorClass d)
          (errorElement := classAdd ''show'' (errorClass d errorElement))\<rparr>"

definition clearError :: "field \<Rightarrow> field \<Rightarrow> dom \<Rightarrow> dom" where
  "clearError input errorElement d =
     d\<lparr>inputClass := (inputClass d)
          (input := classAdd ''success-input'' (classRemove ''error-input'' (inputClass d input))),
       errorText := (errorText d)(errorElement := []),
       errorClass := (errorClass d)
          (errorElement := classRemove ''show'' (errorClass d errorElement))\<rparr>"

section \<open>Field validators\<close>

text \<open>Each validator returns its verdict and the document it leaves.\<close>

definition validateFullName :: "dom \<Rightarrow> bool \<times> dom" where
  "validateFullName d =
     (let fullName = trim (inputValue d FullName);
          fullNameGroup = parentElement d FullName
      in if fullName = [] then
           (False, groupAdd fullNameGroup ''error''
              (showError FullName FullName (js ''Full name is required'') d))
         else if length fullName < 3 then
           (False, groupAdd fullNameGroup ''error''
              (showError FullName FullName (js ''Full name must be at least 3 characters'') d))
         else
           (True, groupRemove fullNameGroup ''error'' (clearError FullName FullName d)))"

definition validateEmail :: "dom \<Rightarrow> bool \<times> dom" where
  "validateEmail d =
     (let email = trim (inputValue d Email);
          emailGroup = parentElement d Email
      in if email = [] then
           (False, groupAdd emailGroup ''error''
              (showError Email Email (js ''Email is required'') d))
         else if \<not> includes_js email 0x40 then
           (False, groupAdd emailGroup ''error''
              (showError Email Email (js ''Email must contain @ symbol'') d))
         else if \<not> includes_js email 0x2E then
           (False, groupAdd emailGroup ''error''
              (showError Email Email (js ''Email must contain a domain (.)'') d))
         else if \<not> test emailRegex email then
           (False, groupAdd emailGroup ''error''
              (showError Email Email (js ''Please enter a valid email format'') d))
         else
           (True, groupRemove emailGroup ''error'' (clearError Email Email d)))"

definition validatePassword :: "dom \<Rightarrow> bool \<times> dom" where
  "validatePassword d =
     (let password = inputValue d Password;
          passwordGroup = parentElement d Password
      in if password = [] then
           (False, groupAdd passwordGroup ''error''
              (showError Password Password (js ''Password is required'') d))
         else if length password < 6 then
           (False, groupAdd passwordGroup ''error''
              (showError Password Password (js ''Password must be at least 6 characters'') d))
         else
           (True, groupRemove passwordGroup ''error'' (clearError Password Password d)))"

definition validateConfirmPassword :: "dom \<Rightarrow> bool \<times> dom" where
  "validateConfirmPassword d =
     (let password = inputValue d Password;
          confirmPassword = inputValue d ConfirmPassword;
          confirmPasswordGroup = parentElement d ConfirmPassword
      in if confirmPassword = [] then
           (False, groupAdd confirmPasswordGroup ''error''
              (showError ConfirmPassword ConfirmPassword (js ''Please confirm your password'') d))
         else if password \<noteq> confirmPassword then
           (False, groupAdd confirmPasswordGroup ''error''
              (showError ConfirmPassword ConfirmPassword (js ''Passwords do not match'') d))
         else
           (True, groupRemove confirmPasswordGroup ''error''
              (clearError ConfirmPassword ConfirmPassword d)))"

definition validatePhone :: "dom \<Rightarrow> bool \<times> dom" where
  "validatePhone d =
     (let phone = trim (inputValue d Phone);
          phoneGroup = parentElement d Phone
      in if phone = [] then
           (False, groupAdd phoneGroup ''error''
              (showError Phone Phone (js ''Phone number is required'') d))
         else if \<not> test phoneRegex phone then
           (False, groupAdd phoneGroup ''error''
              (showError Phone Phone (js ''Phone number must contain only digits (0-9)'') d))
         else if length phone < 10 then
           (False, groupAdd phoneGroup ''error''
              (showError Phone Phone (js ''Phone number must be at least 10 digits'') d))
         else
           (True, groupRemove phoneGroup ''error'' (clearError Phone Phone d)))"

section \<open>The whole form\<close>

definition validateForm :: "dom \<Rightarrow> bool \<times> dom" where
  "validateForm d =
     (let (isFullNameValid, d1) = validateFullName d;
          (isEmailValid, d2) = validateEmail d1;
          (isPasswordValid, d3) = validatePassword d2;
          (isConfirmPasswordValid, d4) = validateConfirmPassword d3;
          (isPhoneValid, d5) = validatePhone d4
      in (isFullNameValid \<and> isEmailValid \<and> isPasswordValid \<and> isConfirmPasswordValid
            \<and> isPhoneValid, d5))"

text \<open>
  Modelled from the spec: the host page signup.html is not among the sources.
  \<open>signupForm.reset()\<close> gives every input of the form its default value, which the
  page fixes; the spec says that the reset "clears all input values", so the default
  of each of the five inputs is the empty string.
\<close>

definition formReset :: "dom \<Rightarrow> dom" where
  "formReset d = d\<lparr>inputValue := (\<lambda>f. [])\<rparr>"

text \<open>The bodies of the two \<open>forEach\<close> loops of \<open>resetForm\<close>.\<close>

definition resetInput :: "field \<Rightarrow> dom \<Rightarrow> dom" where
  "resetInput input d =
     groupRemove (parentElement d input) ''error''
       (d\<lparr>inputClass := (inputClass d)
            (input := classRemove ''success-input''
                        (classRemove ''error-input'' (inputClass d input)))\<rparr>)"

definition resetError :: "field \<Rightarrow> dom \<Rightarrow> dom" where
  "resetError error d =
     d\<lparr>errorText := (errorText d)(error := []),
       errorClass := (errorClass d)(error := classRemove ''show'' (errorClass d error))\<rparr>"

fun forEach :: "'a list \<Rightarrow> ('a \<Rightarrow> dom \<Rightarrow> dom) \<Rightarrow> dom \<Rightarrow> dom" where
  "forEach [] f d = d"
| "forEach (x # xs) f d = forEach xs f (f x d)"

definition resetForm :: "dom \<Rightarrow> dom" where
  "resetForm d =
     (let d1 = formReset d;
          inputs = [FullName, Email, Password, ConfirmPassword, Phone];
          errors = [FullName, Email, Password, ConfirmPassword, Phone];
          d2 = forEach inputs resetInput d1;
          d3 = forEach errors resetError d2
      in d3\<lparr>successClass := classRemove ''show'' (successClass d3)\<rparr>)"

text \<open>\<open>showSuccessMessage\<close> shows the banner; its timer is kept by the event loop below.\<close>

definition showSuccessMessage :: "dom \<Rightarrow> dom" where
  "showSuccessMessage d = d\<lparr>successClass := classAdd ''show'' (successClass d)\<rparr>"

definition hideSuccessMessage :: "dom \<Rightarrow> dom" where
  "hideSuccessMessage d = d\<lparr>successClass := classRemove ''show'' (successClass d)\<rparr>"

section \<open>Event listeners\<close>

text \<open>The \<open>blur\<close> listener of each input is the validator of its field.\<close>

fun validator :: "field \<Rightarrow> dom \<Rightarrow> bool \<times> dom" where
  "validator FullName = validateFullName"
| "validator Email = validateEmail"
| "validator Password = validatePassword"
| "validator ConfirmPassword = validateConfirmPassword"
| "validator Phone = validatePhone"

text \<open>The \<open>input\<close> listener of the confirm-password input.\<close>

definition confirmPasswordOnInput :: "dom \<Rightarrow> dom" where
  "confirmPasswordOnInput d =
     (if inputValue d ConfirmPassword \<noteq> [] then snd (validateConfirmPassword d) else d)"

text \<open>The \<open>input\<close> listener of the password input.\<close>

definition passwordOnInput :: "dom \<Rightarrow> dom" where
  "passwordOnInput d =
     (if length (inputValue d Password) \<ge> 6 then clearError Password Password d else d)"

section \<open>The page as a transition system\<close>

text \<open>The user changes the text of an input.\<close>

definition setValue :: "field \<Rightarrow> jsstring \<Rightarrow> dom \<Rightarrow> dom" where
  "setValue f v d = d\<lparr>inputValue := (inputValue d)(f := v)\<rparr>"

text \<open>
  The page between two events: the document, the timers that are set and have not
  fired, and two things the script does not store, kept here to state properties of
  them. \<open>verdict\<close> is, for each field, what its validator returned when it last ran
  (\<open>None\<close> before the first run); nothing but a run of the validator changes it.
  \<open>evaluated\<close> is the state of the field in the spec's state machine: untouched at
  load, evaluated once its validator has run, and untouched again after \<open>resetForm\<close>.
\<close>

record page =
  doc :: dom
  verdict :: "field \<Rightarrow> bool option"
  evaluated :: "field \<Rightarrow> bool"
  resetTimers :: nat
  hideTimers :: nat

datatype event =
    Edit field jsstring
  | Blur field
  | Input field
  | Submit
  | ResetTimeout
  | HideTimeout

text \<open>The five values that \<open>validateForm\<close> binds to its local constants.\<close>

definition formVerdicts :: "dom \<Rightarrow> field \<Rightarrow> bool" where
  "formVerdicts d =
     (let (isFullNameValid, d1) = validateFullName d;
          (isEmailValid, d2) = validateEmail d1;
          (isPasswordValid, d3) = validatePassword d2;
          (isConfirmPasswordValid, d4) = validateConfirmPassword d3;
          (isPhoneValid, d5) = validatePhone d4
      in (\<lambda>f. case f of FullName \<Rightarrow> isFullNameValid | Email \<Rightarrow> isEmailValid
            | Password \<Rightarrow> isPasswordValid | ConfirmPassword \<Rightarrow> isConfirmPasswordValid
            | Phone \<Rightarrow> isPhoneValid))"

text \<open>
  One event. \<open>Edit\<close> is the user changing the text of an input. \<open>Submit\<close> is the
  \<open>submit\<close> listener: on success it shows the banner and sets both timers. A timer
  event without a pending timer does not occur and is skipped.
\<close>

fun step :: "event \<Rightarrow> page \<Rightarrow> page" where
  "step (Edit f v) p = p\<lparr>doc := setValue f v (doc p)\<rparr>"
| "step (Blur f) p =
     (let (ok, d) = validator f (doc p)
      in p\<lparr>doc := d, verdict := (verdict p)(f := Some ok),
           evaluated := (evaluated p)(f := True)\<rparr>)"
| "step (Input ConfirmPassword) p =
     (if inputValue (doc p) ConfirmPassword \<noteq> [] then
        p\<lparr>doc := confirmPasswordOnInput (doc p),
          verdict := (verdict p)(ConfirmPassword := Some (fst (validateConfirmPassword (doc p)))),
          evaluated := (evaluated p)(ConfirmPassword := True)\<rparr>
      else p\<lparr>doc := confirmPasswordOnInput (doc p)\<rparr>)"
| "step (Input Password) p = p\<lparr>doc := passwordOnInput (doc p)\<rparr>"
| "step (Input f) p = p"
| "step Submit p =
     (let (ok, d) = validateForm (doc p);
          p' = p\<lparr>doc := d, verdict := (\<lambda>f. Some (formVerdicts (doc p) f)),
                 evaluated := (\<lambda>f. True)\<rparr>
      in if ok then
           p'\<lparr>doc := showSuccessMessage d,
              hideTimers := hideTimers p + 1, resetTimers := resetTimers p + 1\<rparr>
         else p')"
| "step ResetTimeout p =
     (if resetTimers p = 0 then p
      else p\<lparr>doc := resetForm (doc p), evaluated := (\<lambda>f. False),
             resetTimers := resetTimers p - 1\<rparr>)"
| "step HideTimeout p =
     (if hideTimers p = 0 then p
      else p\<lparr>doc := hideSuccessMessage (doc p), hideTimers := hideTimers p - 1\<rparr>)"

fun run :: "event list \<Rightarrow> page \<Rightarrow> page" where
  "run [] p = p"
| "run (e # es) p = run es (step e p)"

text \<open>
  Modelled from the spec: the host page signup.html is not among the sources. At
  load every field is untouched and neutral: the inputs are empty, no input, container
  or error slot has a state class, the error slots have no text and the banner is
  hidden. Which container each input sits in is a parameter.
\<close>

definition pageLoad :: "(field \<Rightarrow> nat) \<Rightarrow> page" where
  "pageLoad par =
     \<lparr>doc = \<lparr>inputValue = (\<lambda>f. []), inputClass = (\<lambda>f. {}), parentElement = par,
             groupClass = (\<lambda>g. {}), errorText = (\<lambda>f. []), errorClass = (\<lambda>f. {}),
             successClass = {}\<rparr>,
      verdict = (\<lambda>f. None), evaluated = (\<lambda>f. False), resetTimers = 0,
      hideTimers = 0\<rparr>"

text \<open>A page in which every field has a container of its own.\<close>

definition ownGroups :: "field \<Rightarrow> nat" where
  "ownGroups f = (case f of FullName \<Rightarrow> 0 | Email \<Rightarrow> 1 | Password \<Rightarrow> 2
     | ConfirmPassword \<Rightarrow> 3 | Phone \<Rightarrow> 4)"

section \<open>Properties stated about the page\<close>

text \<open>
  The two ways a validator ends: it shows a message and flags the container, or it
  clears the message and the flag.
\<close>

definition markInvalid :: "field \<Rightarrow> jsstring \<Rightarrow> dom \<Rightarrow> dom" where
  "markInvalid f m d = groupAdd (parentElement d f) ''error'' (showError f f m d)"

definition markValid :: "field \<Rightarrow> dom \<Rightarrow> dom" where
  "markValid f d = groupRemove (parentElement d f) ''error'' (clearError f f d)"

definition outcome :: "bool \<times> dom \<Rightarrow> field \<Rightarrow> dom \<Rightarrow> bool" where
  "outcome r f d \<longleftrightarrow>
     (\<exists>m. m \<noteq> [] \<and> r = (False, markInvalid f m d)) \<or> r = (True, markValid f d)"



text \<open>At most one of the two styling classes is on the input of a field.\<close>

definition oneStyling :: "dom \<Rightarrow> field \<Rightarrow> bool" where
  "oneStyling d f \<longleftrightarrow>
     \<not> (''error-input'' \<in> inputClass d f \<and> ''success-input'' \<in> inputClass d f)"

section \<open>Strings and patterns\<close>

lemma matchHere_Eol: "matchHere [Eol] b s \<longleftrightarrow> s = []"
  by simp

lemma matchHere_Ch:
  "matchHere (Ch p # r) b s \<longleftrightarrow> (\<exists>c cs. s = c # cs \<and> p c \<and> matchHere r False cs)"
  by (cases s) simp_all

lemma matchHere_ChPlus:
  "matchHere (ChPlus p # r) b s \<longleftrightarrow>
     (\<exists>u v. s = u @ v \<and> u \<noteq> [] \<and> (\<forall>c\<in>set u. p c) \<and> matchHere r False v)"
proof (induction s arbitrary: b)
  case Nil
  then show ?case by simp
next
  case (Cons c cs)
  show ?case
  proof
    assume "matchHere (ChPlus p # r) b (c # cs)"
    then have pc: "p c" and alt: "matchHere (ChPlus p # r) False cs \<or> matchHere r False cs"
      by simp_all
    from alt show "\<exists>u v. c # cs = u @ v \<and> u \<noteq> [] \<and> (\<forall>c\<in>set u. p c) \<and> matchHere r False v"
    proof
      assume "matchHere (ChPlus p # r) False cs"
      then obtain u v where "cs = u @ v" "u \<noteq> []" "\<forall>c\<in>set u. p c" "matchHere r False v"
        using Cons.IH by blast
      with pc have "c # cs = (c # u) @ v \<and> c # u \<noteq> [] \<and> (\<forall>x\<in>set (c # u). p x) \<and> matchHere r False v"
        by simp
      then show ?thesis by blast
    next
      assume "matchHere r False cs"
      with pc have "c # cs = [c] @ cs \<and> [c] \<noteq> [] \<and> (\<forall>x\<in>set [c]. p x) \<and> matchHere r False cs"
        by simp
      then show ?thesis by blast
    qed
  next
    assume "\<exists>u v. c # cs = u @ v \<and> u \<noteq> [] \<and> (\<forall>c\<in>set u. p c) \<and> matchHere r False v"
    then obtain u v where uv: "c # cs = u @ v" "u \<noteq> []" "\<forall>c\<in>set u. p c" "matchHere r False v"
      by blast
    then obtain u' where u: "u = c # u'" and cs: "cs = u' @ v"
      by (cases u) auto
    show "matchHere (ChPlus p # r) b (c # cs)"
    proof (cases "u' = []")
      case True
      with uv u cs show ?thesis by simp
    next
      case False
      with uv u cs have "matchHere (ChPlus p # r) False cs"
        using Cons.IH [of False] by auto
      with uv u show ?thesis by simp
    qed
  qed
qed

lemma searchFrom_Bol_False: "\<not> searchFrom (Bol # r) False s"
  by (induction s) simp_all

lemma test_Bol: "test (Bol # r) s \<longleftrightarrow> matchHere r True s"
  by (cases s) (simp_all add: test_def searchFrom_Bol_False)

lemma test_phoneRegex: "test phoneRegex s \<longleftrightarrow> s \<noteq> [] \<and> (\<forall>c\<in>set s. isDigit c)"
  by (auto simp: phoneRegex_def test_Bol matchHere_ChPlus)

lemma test_emailRegex:
  "test emailRegex s \<longleftrightarrow>
     (\<exists>a b c. s = a @ [0x40] @ b @ [0x2E] @ c \<and> a \<noteq> [] \<and> b \<noteq> [] \<and> c \<noteq> [] \<and>
        (\<forall>x\<in>set (a @ b @ c). notSpaceAt x))"
  (is "?L \<longleftrightarrow> ?R")
proof
  assume ?L
  then obtain a v1 where 1: "s = a @ v1" "a \<noteq> []" "\<forall>x\<in>set a. notSpaceAt x"
      "matchHere [Ch (\<lambda>c. c = 0x40), ChPlus notSpaceAt, Ch (\<lambda>c. c = 0x2E), ChPlus notSpaceAt, Eol] False v1"
    unfolding emailRegex_def test_Bol matchHere_ChPlus [of _ "Ch _ # _"] by blast
  then obtain v2 where 2: "v1 = 0x40 # v2"
      "matchHere [ChPlus notSpaceAt, Ch (\<lambda>c. c = 0x2E), ChPlus notSpaceAt, Eol] False v2"
    unfolding matchHere_Ch by blast
  then obtain b v3 where 3: "v2 = b @ v3" "b \<noteq> []" "\<forall>x\<in>set b. notSpaceAt x"
      "matchHere [Ch (\<lambda>c. c = 0x2E), ChPlus notSpaceAt, Eol] False v3"
    unfolding matchHere_ChPlus [of _ "Ch _ # _"] by blast
  then obtain v4 where 4: "v3 = 0x2E # v4" "matchHere [ChPlus notSpaceAt, Eol] False v4"
    unfolding matchHere_Ch by blast
  then have 5: "v4 \<noteq> []" "\<forall>x\<in>set v4. notSpaceAt x"
    unfolding matchHere_ChPlus by auto
  from 1 2 3 4 5 have "s = a @ [0x40] @ b @ [0x2E] @ v4 \<and> a \<noteq> [] \<and> b \<noteq> [] \<and> v4 \<noteq> [] \<and>
        (\<forall>x\<in>set (a @ b @ v4). notSpaceAt x)"
    by auto
  then show ?R by blast
next
  assume ?R
  then obtain a b c where s: "s = a @ [0x40] @ b @ [0x2E] @ c" and ne: "a \<noteq> []" "b \<noteq> []" "c \<noteq> []"
    and cl: "\<forall>x\<in>set a. notSpaceAt x" "\<forall>x\<in>set b. notSpaceAt x" "\<forall>x\<in>set c. notSpaceAt x"
    by auto
  from ne cl have "matchHere [ChPlus notSpaceAt, Eol] False c"
    unfolding matchHere_ChPlus by simp
  then have "matchHere [Ch (\<lambda>c. c = 0x2E), ChPlus notSpaceAt, Eol] False ([0x2E] @ c)"
    by simp
  with ne cl have "matchHere [ChPlus notSpaceAt, Ch (\<lambda>c. c = 0x2E), ChPlus notSpaceAt, Eol] False (b @ [0x2E] @ c)"
    unfolding matchHere_ChPlus [of _ "Ch _ # _"] by blast
  then have "matchHere [Ch (\<lambda>c. c = 0x40), ChPlus notSpaceAt, Ch (\<lambda>c. c = 0x2E), ChPlus notSpaceAt, Eol] False ([0x40] @ b @ [0x2E] @ c)"
    by simp
  with ne cl have "matchHere [ChPlus notSpaceAt, Ch (\<lambda>c. c = 0x40), ChPlus notSpaceAt, Ch (\<lambda>c. c = 0x2E), ChPlus notSpaceAt, Eol] True (a @ [0x40] @ b @ [0x2E] @ c)"
    unfolding matchHere_ChPlus [of _ "Ch _ # _"] by blast
  with s show ?L by (simp add: emailRegex_def test_Bol)
qed

lemma trim_Nil: "trim [] = []"
  by (simp add: trim_def trimStart_def trimEnd_def)

section \<open>What a validator changes\<close>

lemma js_eq_Nil: "js lit = [] \<longleftrightarrow> lit = []"
  by (simp add: js_def)

lemma outcome_fail:
  "lit \<noteq> [] \<Longrightarrow>
   outcome (False, groupAdd (parentElement d f) ''error'' (showError f f (js lit) d)) f d"
  unfolding outcome_def markInvalid_def using js_eq_Nil by blast

lemma outcome_pass:
  "outcome (True, groupRemove (parentElement d f) ''error'' (clearError f f d)) f d"
  by (simp add: outcome_def markValid_def)

lemma validator_outcome': "outcome (validator f d) f d"
  by (cases f)
     (simp_all add: validateFullName_def validateEmail_def validatePassword_def
        validateConfirmPassword_def validatePhone_def Let_def outcome_fail outcome_pass)

lemma validator_outcome:
  "(\<exists>m. m \<noteq> [] \<and> validator f d = (False, markInvalid f m d)) \<or> validator f d = (True, markValid f d)"
  using validator_outcome' [of f d] by (simp add: outcome_def)

lemma markInvalid_sel:
  "inputValue (markInvalid f m d) = inputValue d"
  "parentElement (markInvalid f m d) = parentElement d"
  "successClass (markInvalid f m d) = successClass d"
  "errorText (markInvalid f m d) = (errorText d)(f := m)"
  "errorClass (markInvalid f m d) = (errorClass d)(f := insert ''show'' (errorClass d f))"
  "inputClass (markInvalid f m d) = (inputClass d)(f := insert ''error-input'' (inputClass d f) - {''success-input''})"
  "groupClass (markInvalid f m d) = (groupClass d)(parentElement d f := insert ''error'' (groupClass d (parentElement d f)))"
  by (simp_all add: markInvalid_def groupAdd_def showError_def classAdd_def classRemove_def)

lemma markValid_sel:
  "inputValue (markValid f d) = inputValue d"
  "parentElement (markValid f d) = parentElement d"
  "successClass (markValid f d) = successClass d"
  "errorText (markValid f d) = (errorText d)(f := [])"
  "errorClass (markValid f d) = (errorClass d)(f := errorClass d f - {''show''})"
  "inputClass (markValid f d) = (inputClass d)(f := insert ''success-input'' (inputClass d f - {''error-input''}))"
  "groupClass (markValid f d) = (groupClass d)(parentElement d f := groupClass d (parentElement d f) - {''error''})"
  by (simp_all add: markValid_def groupRemove_def clearError_def classAdd_def classRemove_def)

lemma validator_inputValue: "inputValue (snd (validator f d)) = inputValue d"
  using validator_outcome [of f d] by (auto simp: markInvalid_sel markValid_sel)

lemma validator_parentElement: "parentElement (snd (validator f d)) = parentElement d"
  using validator_outcome [of f d] by (auto simp: markInvalid_sel markValid_sel)

lemma validator_successClass: "successClass (snd (validator f d)) = successClass d"
  using validator_outcome [of f d] by (auto simp: markInvalid_sel markValid_sel)

lemma validator_other:
  assumes "f' \<noteq> f"
  shows "inputClass (snd (validator f d)) f' = inputClass d f'"
    and "errorText (snd (validator f d)) f' = errorText d f'"
    and "errorClass (snd (validator f d)) f' = errorClass d f'"
  using validator_outcome [of f d] assms by (auto simp: markInvalid_sel markValid_sel)

lemma validator_other_group:
  "g \<noteq> parentElement d f \<Longrightarrow> groupClass (snd (validator f d)) g = groupClass d g"
  using validator_outcome [of f d] by (auto simp: markInvalid_sel markValid_sel)

lemma validator_verdict_cong:
  "inputValue d' = inputValue d \<Longrightarrow> fst (validator f d') = fst (validator f d)"
  by (cases f)
     (simp_all add: validateFullName_def validateEmail_def validatePassword_def
        validateConfirmPassword_def validatePhone_def Let_def)

lemma setValue_sel:
  "inputValue (setValue f v d) = (inputValue d)(f := v)"
  "inputClass (setValue f v d) = inputClass d"
  "parentElement (setValue f v d) = parentElement d"
  "groupClass (setValue f v d) = groupClass d"
  "errorText (setValue f v d) = errorText d"
  "errorClass (setValue f v d) = errorClass d"
  "successClass (setValue f v d) = successClass d"
  by (simp_all add: setValue_def)

lemmas string_eval = js_def trim_def trimStart_def trimEnd_def isWhiteSpace_def isDigit_def
  includes_js_def

lemma test_emailRegex_includes:
  "test emailRegex s \<Longrightarrow> s \<noteq> [] \<and> includes_js s 0x40 \<and> includes_js s 0x2E"
  unfolding test_emailRegex includes_js_def by auto

section \<open>The email validator\<close>

text \<open>
  C2: \<open>validateEmail\<close> checks the trimmed value against its rules in order (empty,
  no \<open>@\<close>, no \<open>.\<close>, the pattern) and shows the message of the first rule that fails;
  it returns true exactly when the pattern matches. With the value \<open>a@b.c\<close> it
  returns true and clears the slot, with \<open>ab.c\<close> it shows the \<open>@\<close> message, with
  \<open>a@bc\<close> the \<open>.\<close> message, and with \<open>a @b.c\<close> the message of the pattern.
\<close>

theorem validateEmail_first_failing_rule:
  "(let email = trim (inputValue d Email) in
      fst (validateEmail d) = test emailRegex email
      \<and> errorText (snd (validateEmail d)) Email =
          (if email = [] then js ''Email is required''
           else if \<not> includes_js email 0x40 then js ''Email must contain @ symbol''
           else if \<not> includes_js email 0x2E then js ''Email must contain a domain (.)''
           else if \<not> test emailRegex email then js ''Please enter a valid email format''
           else []))
    \<and> fst (validateEmail (setValue Email (js ''a@b.c'') d))
    \<and> errorText (snd (validateEmail (setValue Email (js ''a@b.c'') d))) Email = []
    \<and> \<not> fst (validateEmail (setValue Email (js ''ab.c'') d))
    \<and> errorText (snd (validateEmail (setValue Email (js ''ab.c'') d))) Email =
        js ''Email must contain @ symbol''
    \<and> \<not> fst (validateEmail (setValue Email (js ''a@bc'') d))
    \<and> errorText (snd (validateEmail (setValue Email (js ''a@bc'') d))) Email =
        js ''Email must contain a domain (.)''
    \<and> \<not> fst (validateEmail (setValue Email (js ''a @b.c'') d))
    \<and> errorText (snd (validateEmail (setValue Email (js ''a @b.c'') d))) Email =
        js ''Please enter a valid email format''"
proof -
  have general: "(let email = trim (inputValue d Email) in
      fst (validateEmail d) = test emailRegex email
      \<and> errorText (snd (validateEmail d)) Email =
          (if email = [] then js ''Email is required''
           else if \<not> includes_js email 0x40 then js ''Email must contain @ symbol''
           else if \<not> includes_js email 0x2E then js ''Email must contain a domain (.)''
           else if \<not> test emailRegex email then js ''Please enter a valid email format''
           else []))"
    using test_emailRegex_includes [of "trim (inputValue d Email)"]
    by (auto simp: validateEmail_def Let_def groupAdd_def groupRemove_def
          showError_def clearError_def)
  have t1: "trim (js ''a@b.c'') = js ''a@b.c''" and t2: "trim (js ''ab.c'') = js ''ab.c''"
    and t3: "trim (js ''a@bc'') = js ''a@bc''" and t4: "trim (js ''a @b.c'') = js ''a @b.c''"
    by (simp_all add: string_eval)
  have r1: "test emailRegex (js ''a@b.c'')" and r4: "\<not> test emailRegex (js ''a @b.c'')"
    by (simp_all add: js_def test_def emailRegex_def notSpaceAt_def isWhiteSpace_def)
  have i2: "\<not> includes_js (js ''ab.c'') 0x40" and i3: "includes_js (js ''a@bc'') 0x40"
    and j3: "\<not> includes_js (js ''a@bc'') 0x2E" and i4: "includes_js (js ''a @b.c'') 0x40"
    and j4: "includes_js (js ''a @b.c'') 0x2E" and i1: "includes_js (js ''a@b.c'') 0x40"
    and j1: "includes_js (js ''a@b.c'') 0x2E"
    by (simp_all add: js_def includes_js_def)
  have e1: "fst (validateEmail (setValue Email (js ''a@b.c'') d))
      \<and> errorText (snd (validateEmail (setValue Email (js ''a@b.c'') d))) Email = []"
    by (simp add: validateEmail_def Let_def setValue_sel t1 r1 i1 j1 js_eq_Nil
          groupRemove_def clearError_def)
  have e2: "\<not> fst (validateEmail (setValue Email (js ''ab.c'') d))
      \<and> errorText (snd (validateEmail (setValue Email (js ''ab.c'') d))) Email =
          js ''Email must contain @ symbol''"
    by (simp add: validateEmail_def Let_def setValue_sel t2 i2 js_eq_Nil
          groupAdd_def showError_def)
  have e3: "\<not> fst (validateEmail (setValue Email (js ''a@bc'') d))
      \<and> errorText (snd (validateEmail (setValue Email (js ''a@bc'') d))) Email =
          js ''Email must contain a domain (.)''"
    by (simp add: validateEmail_def Let_def setValue_sel t3 i3 j3 js_eq_Nil
          groupAdd_def showError_def)
  have e4: "\<not> fst (validateEmail (setValue Email (js ''a @b.c'') d))
      \<and> errorText (snd (validateEmail (setValue Email (js ''a @b.c'') d))) Email =
          js ''Please enter a valid email format''"
    by (simp add: validateEmail_def Let_def setValue_sel t4 i4 j4 r4 js_eq_Nil
          groupAdd_def showError_def)
  from general e1 e2 e3 e4 show ?thesis by blast
qed

section \<open>The phone validator\<close>

text \<open>
  C5: \<open>validatePhone\<close> checks the trimmed value for being non-empty, then against the
  digits-only pattern, then for a length of at least 10, and shows the message of the
  first check that fails. \<open>12345\<close> fails as too short, \<open>12345abcde\<close> and \<open>123abc\<close>
  fail with the digits message (the digits check comes before the length check), and
  \<open>1234567890\<close> passes.
\<close>

theorem validatePhone_first_failing_rule:
  "(let phone = trim (inputValue d Phone) in
      test phoneRegex phone = (phone \<noteq> [] \<and> list_all isDigit phone)
      \<and> fst (validatePhone d) = (phone \<noteq> [] \<and> test phoneRegex phone \<and> length phone \<ge> 10)
      \<and> errorText (snd (validatePhone d)) Phone =
          (if phone = [] then js ''Phone number is required''
           else if \<not> test phoneRegex phone then js ''Phone number must contain only digits (0-9)''
           else if length phone < 10 then js ''Phone number must be at least 10 digits''
           else []))
    \<and> \<not> fst (validatePhone (setValue Phone (js ''12345'') d))
    \<and> errorText (snd (validatePhone (setValue Phone (js ''12345'') d))) Phone =
        js ''Phone number must be at least 10 digits''
    \<and> \<not> fst (validatePhone (setValue Phone (js ''12345abcde'') d))
    \<and> errorText (snd (validatePhone (setValue Phone (js ''12345abcde'') d))) Phone =
        js ''Phone number must contain only digits (0-9)''
    \<and> \<not> fst (validatePhone (setValue Phone (js ''123abc'') d))
    \<and> errorText (snd (validatePhone (setValue Phone (js ''123abc'') d))) Phone =
        js ''Phone number must contain only digits (0-9)''
    \<and> fst (validatePhone (setValue Phone (js ''1234567890'') d))
    \<and> errorText (snd (validatePhone (setValue Phone (js ''1234567890'') d))) Phone = []"
proof -
  have general: "(let phone = trim (inputValue d Phone) in
      test phoneRegex phone = (phone \<noteq> [] \<and> list_all isDigit phone)
      \<and> fst (validatePhone d) = (phone \<noteq> [] \<and> test phoneRegex phone \<and> length phone \<ge> 10)
      \<and> errorText (snd (validatePhone d)) Phone =
          (if phone = [] then js ''Phone number is required''
           else if \<not> test phoneRegex phone then js ''Phone number must contain only digits (0-9)''
           else if length phone < 10 then js ''Phone number must be at least 10 digits''
           else []))"
    by (simp add: Let_def test_phoneRegex list_all_iff validatePhone_def groupAdd_def
          groupRemove_def showError_def clearError_def)
  have t: "trim (js ''12345'') = js ''12345''" "trim (js ''12345abcde'') = js ''12345abcde''"
      "trim (js ''123abc'') = js ''123abc''" "trim (js ''1234567890'') = js ''1234567890''"
    by (simp_all add: string_eval)
  have r: "test phoneRegex (js ''12345'')" "\<not> test phoneRegex (js ''12345abcde'')"
      "\<not> test phoneRegex (js ''123abc'')" "test phoneRegex (js ''1234567890'')"
    by (simp_all add: js_def test_def phoneRegex_def isDigit_def)
  have l: "length (js ''12345'') = 5" "length (js ''1234567890'') = 10"
    by (simp_all add: js_def)
  have e1: "\<not> fst (validatePhone (setValue Phone (js ''12345'') d))
    \<and> errorText (snd (validatePhone (setValue Phone (js ''12345'') d))) Phone =
        js ''Phone number must be at least 10 digits''"
    by (simp add: validatePhone_def Let_def setValue_sel t r l js_eq_Nil groupAdd_def showError_def)
  have e2: "\<not> fst (validatePhone (setValue Phone (js ''12345abcde'') d))
    \<and> errorText (snd (validatePhone (setValue Phone (js ''12345abcde'') d))) Phone =
        js ''Phone number must contain only digits (0-9)''"
    by (simp add: validatePhone_def Let_def setValue_sel t r js_eq_Nil groupAdd_def showError_def)
  have e3: "\<not> fst (validatePhone (setValue Phone (js ''123abc'') d))
    \<and> errorText (snd (validatePhone (setValue Phone (js ''123abc'') d))) Phone =
        js ''Phone number must contain only digits (0-9)''"
    by (simp add: validatePhone_def Let_def setValue_sel t r js_eq_Nil groupAdd_def showError_def)
  have e4: "fst (validatePhone (setValue Phone (js ''1234567890'') d))
    \<and> errorText (snd (validatePhone (setValue Phone (js ''1234567890'') d))) Phone = []"
    by (simp add: validatePhone_def Let_def setValue_sel t r l js_eq_Nil groupRemove_def
          clearError_def)
  from general e1 e2 e3 e4 show ?thesis by blast
qed

section \<open>The confirm-password validator\<close>

text \<open>
  C4: \<open>validateConfirmPassword\<close> returns true exactly when the confirm-password value
  is non-empty and equal to the current password value; so when the two values are
  equal and the password is then changed to any other string, the next run returns
  false.
\<close>

theorem validateConfirmPassword_iff_equal:
  "fst (validateConfirmPassword d) =
     (inputValue d ConfirmPassword \<noteq> [] \<and> inputValue d ConfirmPassword = inputValue d Password)
   \<and> (inputValue d ConfirmPassword = inputValue d Password \<longrightarrow> v \<noteq> inputValue d Password \<longrightarrow>
        \<not> fst (validateConfirmPassword (setValue Password v d)))"
  by (auto simp: validateConfirmPassword_def Let_def setValue_sel)

theorem validateConfirmPassword_iff_equal_witness:
  "(let d = setValue ConfirmPassword (js ''secret1'')
              (setValue Password (js ''secret1'') (doc (pageLoad ownGroups)))
    in fst (validateConfirmPassword d)
       \<and> inputValue d ConfirmPassword = inputValue d Password
       \<and> js ''secret2'' \<noteq> inputValue d Password
       \<and> \<not> fst (validateConfirmPassword (setValue Password (js ''secret2'') d)))"
  using validateConfirmPassword_iff_equal
    [of "setValue ConfirmPassword (js ''secret1'')
           (setValue Password (js ''secret1'') (doc (pageLoad ownGroups)))" "js ''secret2''"]
  by (simp add: Let_def setValue_sel pageLoad_def js_def)

text \<open>
  C9, as stated, fails when the confirm-password value is empty: a password of one
  space and an empty confirmation differ only in whitespace, and the message shown is
  the one of the empty check, not the mismatch message.
\<close>

theorem confirm_whitespace_counterexample:
  "js '' '' \<noteq> [] \<and> trim (js '' '') = trim []
   \<and> \<not> fst (validateConfirmPassword
         (setValue ConfirmPassword [] (setValue Password (js '' '') (doc (pageLoad ownGroups)))))
   \<and> errorText (snd (validateConfirmPassword
         (setValue ConfirmPassword [] (setValue Password (js '' '') (doc (pageLoad ownGroups))))))
       ConfirmPassword = js ''Please confirm your password''
   \<and> js ''Please confirm your password'' \<noteq> js ''Passwords do not match''"
  by (simp add: validateConfirmPassword_def Let_def setValue_sel pageLoad_def groupAdd_def
        showError_def string_eval)

text \<open>
  C9, amended: \<open>validateConfirmPassword\<close> compares the untrimmed values. When password
  and confirmation differ, though they are equal after trimming, it returns false, with
  the mismatch message if the confirmation is non-empty and with the message of the
  empty check otherwise. The validators of name, email and phone do trim: two values
  that are equal after trimming get the same verdict.
\<close>

theorem validateConfirmPassword_untrimmed:
  "(inputValue d Password \<noteq> inputValue d ConfirmPassword \<longrightarrow>
    trim (inputValue d Password) = trim (inputValue d ConfirmPassword) \<longrightarrow>
      \<not> fst (validateConfirmPassword d)
      \<and> errorText (snd (validateConfirmPassword d)) ConfirmPassword =
          (if inputValue d ConfirmPassword = [] then js ''Please confirm your password''
           else js ''Passwords do not match''))
   \<and> (f \<in> {FullName, Email, Phone} \<longrightarrow> trim (inputValue d' f) = trim (inputValue d f) \<longrightarrow>
        fst (validator f d') = fst (validator f d))"
  by (auto simp: validateConfirmPassword_def validateFullName_def validateEmail_def
        validatePhone_def Let_def groupAdd_def showError_def)

theorem validateConfirmPassword_untrimmed_witness:
  "(let d = setValue ConfirmPassword (js ''abc123 '')
              (setValue Password (js ''abc123'') (doc (pageLoad ownGroups)));
        d' = setValue Phone (js '' 1234567890'') d;
        d'' = setValue Phone (js ''1234567890 '') d
    in inputValue d Password \<noteq> inputValue d ConfirmPassword
       \<and> trim (inputValue d Password) = trim (inputValue d ConfirmPassword)
       \<and> \<not> fst (validateConfirmPassword d)
       \<and> errorText (snd (validateConfirmPassword d)) ConfirmPassword = js ''Passwords do not match''
       \<and> Phone \<in> {FullName, Email, Phone}
       \<and> trim (inputValue d' Phone) = trim (inputValue d'' Phone)
       \<and> fst (validator Phone d') = fst (validator Phone d''))"
  using validateConfirmPassword_untrimmed
    [of "setValue ConfirmPassword (js ''abc123 '')
           (setValue Password (js ''abc123'') (doc (pageLoad ownGroups)))"
        Phone
        "setValue Phone (js '' 1234567890'')
          (setValue ConfirmPassword (js ''abc123 '')
           (setValue Password (js ''abc123'') (doc (pageLoad ownGroups))))"]
    validateConfirmPassword_untrimmed
    [of "setValue Phone (js ''1234567890 '')
          (setValue ConfirmPassword (js ''abc123 '')
           (setValue Password (js ''abc123'') (doc (pageLoad ownGroups))))"
        Phone
        "setValue Phone (js '' 1234567890'')
          (setValue ConfirmPassword (js ''abc123 '')
           (setValue Password (js ''abc123'') (doc (pageLoad ownGroups))))"]
  by (simp add: Let_def setValue_sel pageLoad_def string_eval)

section \<open>The whole form is validated\<close>

lemma validateForm_snd:
  "snd (validateForm d) =
     snd (validator Phone (snd (validator ConfirmPassword (snd (validator Password
       (snd (validator Email (snd (validator FullName d)))))))))"
  by (simp add: validateForm_def Let_def split_beta)

lemma formVerdicts_validator: "formVerdicts d f = fst (validator f d)"
proof -
  let ?d1 = "snd (validator FullName d)"
  let ?d2 = "snd (validator Email ?d1)"
  let ?d3 = "snd (validator Password ?d2)"
  let ?d4 = "snd (validator ConfirmPassword ?d3)"
  have v: "inputValue ?d1 = inputValue d" "inputValue ?d2 = inputValue d"
      "inputValue ?d3 = inputValue d" "inputValue ?d4 = inputValue d"
    by (simp_all only: validator_inputValue)
  have "formVerdicts d f =
      (case f of FullName \<Rightarrow> fst (validator FullName d) | Email \<Rightarrow> fst (validator Email ?d1)
       | Password \<Rightarrow> fst (validator Password ?d2)
       | ConfirmPassword \<Rightarrow> fst (validator ConfirmPassword ?d3)
       | Phone \<Rightarrow> fst (validator Phone ?d4))"
    by (cases f) (simp_all add: formVerdicts_def Let_def split_beta)
  also have "\<dots> = fst (validator f d)"
  proof (cases f)
    case FullName
    then show ?thesis by (simp only: field.case)
  next
    case Email
    then show ?thesis by (simp only: field.case validator_verdict_cong [OF v(1)])
  next
    case Password
    then show ?thesis by (simp only: field.case validator_verdict_cong [OF v(2)])
  next
    case ConfirmPassword
    then show ?thesis by (simp only: field.case validator_verdict_cong [OF v(3)])
  next
    case Phone
    then show ?thesis by (simp only: field.case validator_verdict_cong [OF v(4)])
  qed
  finally show ?thesis .
qed

lemma validateForm_fst: "fst (validateForm d) = (\<forall>f. formVerdicts d f)"
proof -
  have "fst (validateForm d) =
      (formVerdicts d FullName \<and> formVerdicts d Email \<and> formVerdicts d Password
       \<and> formVerdicts d ConfirmPassword \<and> formVerdicts d Phone)"
    by (simp add: validateForm_def formVerdicts_def Let_def split_beta)
  also have "\<dots> = (\<forall>f. formVerdicts d f)"
    by (metis field.exhaust)
  finally show ?thesis .
qed

lemma validator_own_slot:
  "errorText (snd (validator f d')) f =
     (if fst (validator f d') then [] else errorText (snd (validator f d')) f)"
  using validator_outcome [of f d'] by (auto simp: markValid_sel)

lemma validator_slot_cong:
  "inputValue d' = inputValue d \<Longrightarrow>
   errorText (snd (validator f d')) f = errorText (snd (validator f d)) f"
  by (cases f)
     (simp_all add: validateFullName_def validateEmail_def validatePassword_def
        validateConfirmPassword_def validatePhone_def Let_def groupAdd_def groupRemove_def
        showError_def clearError_def)

lemma validateForm_slot:
  "errorText (snd (validateForm d)) f = errorText (snd (validator f d)) f"
proof -
  let ?d1 = "snd (validator FullName d)"
  let ?d2 = "snd (validator Email ?d1)"
  let ?d3 = "snd (validator Password ?d2)"
  let ?d4 = "snd (validator ConfirmPassword ?d3)"
  let ?d5 = "snd (validator Phone ?d4)"
  have v: "inputValue ?d1 = inputValue d" "inputValue ?d2 = inputValue d"
      "inputValue ?d3 = inputValue d" "inputValue ?d4 = inputValue d"
    by (simp_all only: validator_inputValue)
  have "errorText ?d5 f = errorText (snd (validator f d)) f"
  proof (cases f)
    case FullName
    then show ?thesis by (simp del: validator.simps add: validator_other(2))
  next
    case Email
    then show ?thesis by (simp del: validator.simps add: validator_other(2) validator_slot_cong [OF v(1)])
  next
    case Password
    then show ?thesis by (simp del: validator.simps add: validator_other(2) validator_slot_cong [OF v(2)])
  next
    case ConfirmPassword
    then show ?thesis by (simp del: validator.simps add: validator_other(2) validator_slot_cong [OF v(3)])
  next
    case Phone
    then show ?thesis by (simp del: validator.simps add: validator_slot_cong [OF v(4)])
  qed
  then show ?thesis by (simp only: validateForm_snd)
qed

lemma validator_empty:
  "inputValue d f = [] \<Longrightarrow> \<not> fst (validator f d) \<and> errorText (snd (validator f d)) f \<noteq> []"
  by (cases f)
     (simp_all add: validateFullName_def validateEmail_def validatePassword_def
        validateConfirmPassword_def validatePhone_def Let_def groupAdd_def
        showError_def trim_Nil js_eq_Nil)

text \<open>
  C1: \<open>validateForm\<close> runs the five validators one after the other whatever each of
  them returns, and returns true exactly when all five returned true; each of the five
  verdicts is the one the validator gives on the document before the call, and each
  error slot ends as that field's validator leaves it. When all five inputs are empty
  it returns false and every error slot holds a non-empty message.
\<close>

theorem validateForm_runs_all_validators:
  "snd (validateForm d) =
     snd (validatePhone (snd (validateConfirmPassword (snd (validatePassword
       (snd (validateEmail (snd (validateFullName d)))))))))
   \<and> fst (validateForm d) =
       (fst (validateFullName d) \<and> fst (validateEmail d) \<and> fst (validatePassword d)
        \<and> fst (validateConfirmPassword d) \<and> fst (validatePhone d))
   \<and> fst (validateForm d) = (\<forall>f. formVerdicts d f)
   \<and> formVerdicts d f = fst (validator f d)
   \<and> errorText (snd (validateForm d)) f = errorText (snd (validator f d)) f
   \<and> ((\<forall>f. inputValue d f = []) \<longrightarrow>
        \<not> fst (validateForm d) \<and> (\<forall>f. errorText (snd (validateForm d)) f \<noteq> []))"
proof -
  have 1: "snd (validateForm d) =
     snd (validatePhone (snd (validateConfirmPassword (snd (validatePassword
       (snd (validateEmail (snd (validateFullName d)))))))))"
    using validateForm_snd [of d] by simp
  have "(\<forall>f. fst (validator f d)) =
       (fst (validateFullName d) \<and> fst (validateEmail d) \<and> fst (validatePassword d)
        \<and> fst (validateConfirmPassword d) \<and> fst (validatePhone d))"
    by (metis field.exhaust validator.simps)
  then have 2: "fst (validateForm d) =
       (fst (validateFullName d) \<and> fst (validateEmail d) \<and> fst (validatePassword d)
        \<and> fst (validateConfirmPassword d) \<and> fst (validatePhone d))"
    by (simp add: validateForm_fst formVerdicts_validator)
  have 3: "fst (validateForm d) = (\<forall>f. formVerdicts d f)"
    by (rule validateForm_fst)
  have 4: "formVerdicts d f = fst (validator f d)"
    by (rule formVerdicts_validator)
  have 5: "errorText (snd (validateForm d)) f = errorText (snd (validator f d)) f"
    by (rule validateForm_slot)
  have 6: "(\<forall>f. inputValue d f = []) \<longrightarrow>
        \<not> fst (validateForm d) \<and> (\<forall>f. errorText (snd (validateForm d)) f \<noteq> [])"
    using validator_empty [of d]
    by (simp del: validator.simps
          add: validateForm_fst formVerdicts_validator validateForm_slot)
  from 1 2 3 4 5 6 show ?thesis
    by (intro conjI) assumption+
qed

theorem validateForm_runs_all_validators_witness:
  "(let d = doc (pageLoad ownGroups) in
     (\<forall>f. inputValue d f = []) \<and> \<not> fst (validateForm d)
     \<and> errorText (snd (validateForm d)) FullName = js ''Full name is required''
     \<and> errorText (snd (validateForm d)) Email = js ''Email is required''
     \<and> errorText (snd (validateForm d)) Password = js ''Password is required''
     \<and> errorText (snd (validateForm d)) ConfirmPassword = js ''Please confirm your password''
     \<and> errorText (snd (validateForm d)) Phone = js ''Phone number is required'')"
  using validateForm_runs_all_validators [of "doc (pageLoad ownGroups)"]
  by (simp add: Let_def pageLoad_def validateForm_def validateFullName_def validateEmail_def
        validatePassword_def validateConfirmPassword_def validatePhone_def trim_Nil
        groupAdd_def showError_def)

section \<open>Resetting the form\<close>

lemma field_listed: "f \<in> set [FullName, Email, Password, ConfirmPassword, Phone]"
  by (cases f) simp_all

lemma resetInput_sel:
  "inputValue (resetInput f d) = inputValue d"
  "parentElement (resetInput f d) = parentElement d"
  "errorText (resetInput f d) = errorText d"
  "errorClass (resetInput f d) = errorClass d"
  "successClass (resetInput f d) = successClass d"
  "inputClass (resetInput f d) =
     (inputClass d)(f := inputClass d f - {''error-input'', ''success-input''})"
  "groupClass (resetInput f d) =
     (groupClass d)(parentElement d f := groupClass d (parentElement d f) - {''error''})"
  by (auto simp: resetInput_def groupRemove_def classRemove_def fun_eq_iff)

lemma resetError_sel:
  "inputValue (resetError f d) = inputValue d"
  "parentElement (resetError f d) = parentElement d"
  "inputClass (resetError f d) = inputClass d"
  "groupClass (resetError f d) = groupClass d"
  "successClass (resetError f d) = successClass d"
  "errorText (resetError f d) = (errorText d)(f := [])"
  "errorClass (resetError f d) = (errorClass d)(f := errorClass d f - {''show''})"
  by (simp_all add: resetError_def classRemove_def)

lemma forEach_resetInput:
  "inputValue (forEach fs resetInput d) = inputValue d"
  "parentElement (forEach fs resetInput d) = parentElement d"
  "errorText (forEach fs resetInput d) = errorText d"
  "errorClass (forEach fs resetInput d) = errorClass d"
  "successClass (forEach fs resetInput d) = successClass d"
  "inputClass (forEach fs resetInput d) =
     (\<lambda>f. if f \<in> set fs then inputClass d f - {''error-input'', ''success-input''}
          else inputClass d f)"
  "groupClass (forEach fs resetInput d) =
     (\<lambda>g. if g \<in> parentElement d ` set fs then groupClass d g - {''error''}
          else groupClass d g)"
  by (induction fs arbitrary: d; auto simp: resetInput_sel fun_eq_iff)+

lemma forEach_resetError:
  "inputValue (forEach fs resetError d) = inputValue d"
  "parentElement (forEach fs resetError d) = parentElement d"
  "inputClass (forEach fs resetError d) = inputClass d"
  "groupClass (forEach fs resetError d) = groupClass d"
  "successClass (forEach fs resetError d) = successClass d"
  "errorText (forEach fs resetError d) = (\<lambda>f. if f \<in> set fs then [] else errorText d f)"
  "errorClass (forEach fs resetError d) =
     (\<lambda>f. if f \<in> set fs then errorClass d f - {''show''} else errorClass d f)"
  by (induction fs arbitrary: d; auto simp: resetError_sel fun_eq_iff)+

lemma resetForm_sel:
  "inputValue (resetForm d) = (\<lambda>f. [])"
  "parentElement (resetForm d) = parentElement d"
  "inputClass (resetForm d) = (\<lambda>f. inputClass d f - {''error-input'', ''success-input''})"
  "groupClass (resetForm d) =
     (\<lambda>g. if g \<in> range (parentElement d) then groupClass d g - {''error''} else groupClass d g)"
  "errorText (resetForm d) = (\<lambda>f. [])"
  "errorClass (resetForm d) = (\<lambda>f. errorClass d f - {''show''})"
  "successClass (resetForm d) = successClass d - {''show''}"
proof -
  have all: "set [FullName, Email, Password, ConfirmPassword, Phone] = UNIV"
    using field_listed by blast
  then have all': "{FullName, Email, Password, ConfirmPassword, Phone} = UNIV"
    by simp
  show "inputValue (resetForm d) = (\<lambda>f. [])"
    by (simp add: resetForm_def Let_def forEach_resetInput forEach_resetError all all'
          formReset_def classRemove_def del: forEach.simps cong: if_cong)
  show "parentElement (resetForm d) = parentElement d"
    by (simp add: resetForm_def Let_def forEach_resetInput forEach_resetError all all'
          formReset_def classRemove_def del: forEach.simps cong: if_cong)
  show "inputClass (resetForm d) = (\<lambda>f. inputClass d f - {''error-input'', ''success-input''})"
    by (simp add: resetForm_def Let_def forEach_resetInput forEach_resetError all all'
          formReset_def classRemove_def del: forEach.simps cong: if_cong)
  show "groupClass (resetForm d) =
     (\<lambda>g. if g \<in> range (parentElement d) then groupClass d g - {''error''} else groupClass d g)"
    by (simp add: resetForm_def Let_def forEach_resetInput forEach_resetError all all'
          formReset_def classRemove_def del: forEach.simps cong: if_cong)
  show "errorText (resetForm d) = (\<lambda>f. [])"
    by (simp add: resetForm_def Let_def forEach_resetInput forEach_resetError all all'
          formReset_def classRemove_def del: forEach.simps cong: if_cong)
  show "errorClass (resetForm d) = (\<lambda>f. errorClass d f - {''show''})"
    by (simp add: resetForm_def Let_def forEach_resetInput forEach_resetError all all'
          formReset_def classRemove_def del: forEach.simps cong: if_cong)
  show "successClass (resetForm d) = successClass d - {''show''}"
    by (simp add: resetForm_def Let_def forEach_resetInput forEach_resetError all all'
          formReset_def classRemove_def del: forEach.simps cong: if_cong)
qed

text \<open>
  C6: from any document \<open>resetForm\<close> leaves every input empty, no input with
  \<open>error-input\<close> or \<open>success-input\<close>, no container of an input with \<open>error\<close>, every
  error slot empty and hidden, and the banner hidden; running it twice gives the same
  document as running it once.
\<close>

theorem resetForm_neutral_idempotent:
  "inputValue (resetForm d) f = []
   \<and> ''error-input'' \<notin> inputClass (resetForm d) f
   \<and> ''success-input'' \<notin> inputClass (resetForm d) f
   \<and> ''error'' \<notin> groupClass (resetForm d) (parentElement (resetForm d) f)
   \<and> errorText (resetForm d) f = []
   \<and> ''show'' \<notin> errorClass (resetForm d) f
   \<and> ''show'' \<notin> successClass (resetForm d)
   \<and> resetForm (resetForm d) = resetForm d"
proof -
  have "resetForm (resetForm d) = resetForm d"
    by (rule dom.equality) (auto simp: resetForm_sel fun_eq_iff)
  then show ?thesis
    by (simp add: resetForm_sel)
qed

section \<open>The password shortcut and the frame of a validator\<close>

lemma clearError_sel:
  "inputValue (clearError i e d) = inputValue d"
  "parentElement (clearError i e d) = parentElement d"
  "groupClass (clearError i e d) = groupClass d"
  "successClass (clearError i e d) = successClass d"
  "errorText (clearError i e d) = (errorText d)(e := [])"
  "errorClass (clearError i e d) = (errorClass d)(e := errorClass d e - {''show''})"
  "inputClass (clearError i e d) =
     (inputClass d)(i := insert ''success-input'' (inputClass d i - {''error-input''}))"
  by (simp_all add: clearError_def classAdd_def classRemove_def)

lemma showError_sel:
  "inputValue (showError i e m d) = inputValue d"
  "parentElement (showError i e m d) = parentElement d"
  "groupClass (showError i e m d) = groupClass d"
  "successClass (showError i e m d) = successClass d"
  "errorText (showError i e m d) = (errorText d)(e := m)"
  "errorClass (showError i e m d) = (errorClass d)(e := insert ''show'' (errorClass d e))"
  "inputClass (showError i e m d) =
     (inputClass d)(i := insert ''error-input'' (inputClass d i) - {''success-input''})"
  by (simp_all add: showError_def classAdd_def classRemove_def)

lemma validatePassword_fail_group:
  "\<not> fst (validatePassword d) \<Longrightarrow>
   ''error'' \<in> groupClass (snd (validatePassword d)) (parentElement d Password)"
  using validator_outcome [of Password d] by (auto simp: markInvalid_sel)

text \<open>
  C10: when the password value has length at least 6, the \<open>input\<close> listener of the
  password input does what \<open>clearError\<close> does and nothing else: the password error slot
  is emptied and hidden, \<open>error-input\<close> is replaced by \<open>success-input\<close>, and the
  classes of the containers stay as they are. So after a blur with a failing password,
  typing a password of length 6 or more leaves the \<open>error\<close> class on the container of
  the password input.
\<close>

theorem passwordOnInput_keeps_container_flag:
  "(6 \<le> length (inputValue d Password) \<longrightarrow>
      passwordOnInput d = clearError Password Password d
      \<and> errorText (passwordOnInput d) Password = []
      \<and> ''show'' \<notin> errorClass (passwordOnInput d) Password
      \<and> ''error-input'' \<notin> inputClass (passwordOnInput d) Password
      \<and> ''success-input'' \<in> inputClass (passwordOnInput d) Password
      \<and> groupClass (passwordOnInput d) = groupClass d)
   \<and> (\<not> fst (validatePassword (doc p)) \<longrightarrow> 6 \<le> length v \<longrightarrow>
        (let p' = run [Blur Password, Edit Password v, Input Password] p in
           ''error'' \<in> groupClass (doc p') (parentElement (doc p') Password)
           \<and> errorText (doc p') Password = []
           \<and> ''show'' \<notin> errorClass (doc p') Password
           \<and> ''error-input'' \<notin> inputClass (doc p') Password
           \<and> ''success-input'' \<in> inputClass (doc p') Password))"
proof -
  have handler: "6 \<le> length (inputValue d Password) \<longrightarrow>
      passwordOnInput d = clearError Password Password d
      \<and> errorText (passwordOnInput d) Password = []
      \<and> ''show'' \<notin> errorClass (passwordOnInput d) Password
      \<and> ''error-input'' \<notin> inputClass (passwordOnInput d) Password
      \<and> ''success-input'' \<in> inputClass (passwordOnInput d) Password
      \<and> groupClass (passwordOnInput d) = groupClass d"
    by (simp add: passwordOnInput_def clearError_sel)
  have scenario: "\<not> fst (validatePassword (doc p)) \<longrightarrow> 6 \<le> length v \<longrightarrow>
        (let p' = run [Blur Password, Edit Password v, Input Password] p in
           ''error'' \<in> groupClass (doc p') (parentElement (doc p') Password)
           \<and> errorText (doc p') Password = []
           \<and> ''show'' \<notin> errorClass (doc p') Password
           \<and> ''error-input'' \<notin> inputClass (doc p') Password
           \<and> ''success-input'' \<in> inputClass (doc p') Password)"
  proof (intro impI)
    assume fail: "\<not> fst (validatePassword (doc p))" and long: "6 \<le> length v"
    let ?d1 = "snd (validatePassword (doc p))"
    let ?d2 = "setValue Password v ?d1"
    have run: "doc (run [Blur Password, Edit Password v, Input Password] p) = passwordOnInput ?d2"
      by (simp add: split_beta Let_def)
    have "passwordOnInput ?d2 = clearError Password Password ?d2"
      using long by (simp add: passwordOnInput_def setValue_sel)
    moreover have "''error'' \<in> groupClass ?d1 (parentElement (doc p) Password)"
      using fail by (rule validatePassword_fail_group)
    moreover have "parentElement ?d1 = parentElement (doc p)"
      using validator_parentElement [of Password "doc p"] by simp
    ultimately show "let p' = run [Blur Password, Edit Password v, Input Password] p in
           ''error'' \<in> groupClass (doc p') (parentElement (doc p') Password)
           \<and> errorText (doc p') Password = []
           \<and> ''show'' \<notin> errorClass (doc p') Password
           \<and> ''error-input'' \<notin> inputClass (doc p') Password
           \<and> ''success-input'' \<in> inputClass (doc p') Password"
      unfolding Let_def run by (simp add: clearError_sel setValue_sel)
  qed
  from handler scenario show ?thesis by (rule conjI)
qed

theorem passwordOnInput_keeps_container_flag_witness:
  "(let p = step (Edit Password (js ''abc'')) (pageLoad ownGroups);
        p' = run [Blur Password, Edit Password (js ''abcdef''), Input Password] p in
      \<not> fst (validatePassword (doc p)) \<and> 6 \<le> length (js ''abcdef'')
      \<and> 6 \<le> length (inputValue (setValue Password (js ''abcdef'') (doc p)) Password)
      \<and> passwordOnInput (setValue Password (js ''abcdef'') (doc p)) =
          clearError Password Password (setValue Password (js ''abcdef'') (doc p))
      \<and> ''error'' \<in> groupClass (doc p') (parentElement (doc p') Password)
      \<and> errorText (doc p') Password = []
      \<and> ''error-input'' \<notin> inputClass (doc p') Password)"
  using passwordOnInput_keeps_container_flag
    [of "setValue Password (js ''abcdef'') (doc (step (Edit Password (js ''abc'')) (pageLoad ownGroups)))"
        "step (Edit Password (js ''abc'')) (pageLoad ownGroups)" "js ''abcdef''"]
  by (simp add: Let_def pageLoad_def setValue_sel validatePassword_def js_def)

text \<open>
  C8: the validator of a field X changes nothing but the classes of X's input, the
  error slot of X and the classes of X's container: the values of all inputs, the
  banner, the input classes and error slots of every other field and the classes of
  every other container stay as they are. In particular \<open>validateConfirmPassword\<close>
  leaves value, classes and error slot of the password field unchanged.
\<close>

theorem validator_frame:
  "inputValue (snd (validator X d)) = inputValue d
   \<and> parentElement (snd (validator X d)) = parentElement d
   \<and> successClass (snd (validator X d)) = successClass d
   \<and> (Y \<noteq> X \<longrightarrow>
        inputClass (snd (validator X d)) Y = inputClass d Y
        \<and> errorText (snd (validator X d)) Y = errorText d Y
        \<and> errorClass (snd (validator X d)) Y = errorClass d Y)
   \<and> (g \<noteq> parentElement d X \<longrightarrow> groupClass (snd (validator X d)) g = groupClass d g)
   \<and> inputValue (snd (validateConfirmPassword d)) Password = inputValue d Password
   \<and> inputClass (snd (validateConfirmPassword d)) Password = inputClass d Password
   \<and> errorText (snd (validateConfirmPassword d)) Password = errorText d Password
   \<and> errorClass (snd (validateConfirmPassword d)) Password = errorClass d Password"
  using validator_inputValue [of X d] validator_parentElement [of X d]
    validator_successClass [of X d] validator_other [of Y X d] validator_other_group [of g d X]
    validator_inputValue [of ConfirmPassword d] validator_other [of Password ConfirmPassword d]
  by simp

theorem validator_frame_witness:
  "(let d = setValue ConfirmPassword (js ''abc'') (setValue Password (js ''abcdef'')
              (snd (validatePassword (doc (pageLoad ownGroups)))));
        d' = snd (validator ConfirmPassword d) in
      Password \<noteq> ConfirmPassword \<and> ownGroups Password \<noteq> parentElement d ConfirmPassword
      \<and> \<not> fst (validator ConfirmPassword d)
      \<and> errorText d' ConfirmPassword = js ''Passwords do not match''
      \<and> inputValue d' = inputValue d
      \<and> inputClass d' Password = inputClass d Password
      \<and> errorText d' Password = js ''Password is required''
      \<and> errorClass d' Password = errorClass d Password
      \<and> groupClass d' (ownGroups Password) = groupClass d (ownGroups Password))"
  using validator_frame
    [of ConfirmPassword
        "setValue ConfirmPassword (js ''abc'') (setValue Password (js ''abcdef'')
              (snd (validatePassword (doc (pageLoad ownGroups)))))"
        Password "ownGroups Password"]
  by (simp add: Let_def pageLoad_def setValue_sel validatePassword_def
        validateConfirmPassword_def ownGroups_def js_def showError_def groupAdd_def
        classAdd_def classRemove_def)

section \<open>Invariants of the page\<close>

lemma step_Blur_sel:
  "doc (step (Blur f) p) = snd (validator f (doc p))"
  "verdict (step (Blur f) p) = (verdict p)(f := Some (fst (validator f (doc p))))"
  "evaluated (step (Blur f) p) = (evaluated p)(f := True)"
  "resetTimers (step (Blur f) p) = resetTimers p"
  "hideTimers (step (Blur f) p) = hideTimers p"
  by (simp_all add: split_beta Let_def)




lemma step_Submit_sel:
  "doc (step Submit p) =
     (if fst (validateForm (doc p)) then showSuccessMessage (snd (validateForm (doc p)))
      else snd (validateForm (doc p)))"
  "verdict (step Submit p) = (\<lambda>f. Some (formVerdicts (doc p) f))"
  "evaluated (step Submit p) = (\<lambda>f. True)"
  by (simp_all add: split_beta Let_def)

lemma showSuccessMessage_sel:
  "inputClass (showSuccessMessage d) = inputClass d"
  "errorText (showSuccessMessage d) = errorText d"
  "inputClass (hideSuccessMessage d) = inputClass d"
  "errorText (hideSuccessMessage d) = errorText d"
  by (simp_all add: showSuccessMessage_def hideSuccessMessage_def)

text \<open>One styling class at most.\<close>

lemma validator_oneStyling:
  assumes "\<And>f. oneStyling d f"
  shows "oneStyling (snd (validator X d)) f"
  using validator_outcome [of X d] assms [of f]
  by (auto simp: oneStyling_def markInvalid_sel markValid_sel split: if_splits)

lemma validateForm_oneStyling:
  assumes "\<And>f. oneStyling d f"
  shows "oneStyling (snd (validateForm d)) f"
  unfolding validateForm_snd
  by (intro validator_oneStyling assms)

lemma step_oneStyling:
  assumes inv: "\<And>f. oneStyling (doc p) f"
  shows "oneStyling (doc (step e p)) f"
proof (cases e)
  case (Edit f' v)
  then show ?thesis using inv [of f] by (simp add: oneStyling_def setValue_sel)
next
  case (Blur f')
  then show ?thesis using inv by (simp only: step_Blur_sel validator_oneStyling)
next
  case (Input f')
  show ?thesis
  proof (cases f')
    case Password
    with Input show ?thesis using inv [of f]
      by (auto simp: oneStyling_def passwordOnInput_def clearError_sel)
  next
    case ConfirmPassword
    with Input show ?thesis
      using inv validator_oneStyling [of "doc p" ConfirmPassword f]
      by (simp add: confirmPasswordOnInput_def)
  qed (use Input inv in simp_all)
next
  case Submit
  then show ?thesis
    using validateForm_oneStyling [of "doc p" f, OF inv]
    by (simp del: step.simps add: step_Submit_sel oneStyling_def showSuccessMessage_sel)
next
  case ResetTimeout
  then show ?thesis using inv [of f] by (simp add: oneStyling_def resetForm_sel)
next
  case HideTimeout
  then show ?thesis using inv [of f] by (simp add: oneStyling_def showSuccessMessage_sel)
qed

lemma run_oneStyling:
  "(\<And>f. oneStyling (doc p) f) \<Longrightarrow> oneStyling (doc (run es p)) f"
proof (induction es arbitrary: p f)
  case Nil
  then show ?case by simp
next
  case (Cons e es)
  have "\<And>f. oneStyling (doc (step e p)) f"
    using Cons.prems by (rule step_oneStyling)
  then show ?case using Cons.IH by simp
qed

text \<open>
  C7: in every state the page reaches from its load by any sequence of events, no
  input carries both \<open>error-input\<close> and \<open>success-input\<close>; and whatever the document
  before, the input that \<open>showError\<close>, \<open>clearError\<close>, a validator or \<open>resetForm\<close>
  has just styled carries at most one of the two.
\<close>

theorem oneStyling_after_every_operation:
  "oneStyling (doc (run es (pageLoad par))) f
   \<and> oneStyling (showError f e m d) f
   \<and> oneStyling (clearError f e d) f
   \<and> oneStyling (snd (validator f d)) f
   \<and> oneStyling (resetForm d) f"
proof -
  have "oneStyling (doc (run es (pageLoad par))) f"
    by (rule run_oneStyling) (simp add: oneStyling_def pageLoad_def)
  moreover have "oneStyling (snd (validator f d)) f"
    using validator_outcome [of f d]
    by (auto simp: oneStyling_def markInvalid_sel markValid_sel)
  ultimately show ?thesis
    by (simp add: oneStyling_def showError_sel clearError_sel resetForm_sel)
qed










end
